theory Spec2Isabelle
  imports Main "HOL-Library.Sublist"
begin

section \<open>JavaScript values and string operations used by the daemon\<close>


text \<open>Truthiness of an optional string and of an optional number (\<open>if (x)\<close>, \<open>!x\<close>, \<open>x || d\<close>).\<close>

definition truthy_str :: "string option \<Rightarrow> bool" where
  "truthy_str v = (case v of None \<Rightarrow> False | Some s \<Rightarrow> s \<noteq> [])"

definition truthy_num :: "int option \<Rightarrow> bool" where
  "truthy_num v = (case v of None \<Rightarrow> False | Some n \<Rightarrow> n \<noteq> 0)"

definition or_str :: "string option \<Rightarrow> string \<Rightarrow> string" where
  "or_str v d = (if truthy_str v then the v else d)"

definition startsWith :: "string \<Rightarrow> string \<Rightarrow> bool" where
  "startsWith s p = (take (length p) s = p)"

fun str_includes :: "string \<Rightarrow> string \<Rightarrow> bool" where
  "str_includes [] p = (p = [])"
| "str_includes (x # xs) p = (startsWith (x # xs) p \<or> str_includes xs p)"


text \<open>
  \<open>s.split(sep)\<close> for a non-empty separator (the code splits on \<open>":"\<close>, \<open>"\r\n"\<close> and
  \<open>"\n"\<close> only): \<open>"".split(sep)\<close> is \<open>[""]\<close>, and a separator at the end leaves an empty
  last part.
\<close>

function split :: "string \<Rightarrow> string \<Rightarrow> string list" where
  "split sep [] = [[]]"
| "split sep (x # xs) =
     (if sep \<noteq> [] \<and> startsWith (x # xs) sep
      then [] # split sep (drop (length sep) (x # xs))
      else (case split sep xs of
              p # ps \<Rightarrow> (x # p) # ps
            | [] \<Rightarrow> [[x]]))"
  by pat_completeness auto
termination
  by (relation "measure (\<lambda>(sep, s). length s)") auto

fun join :: "string \<Rightarrow> string list \<Rightarrow> string" where
  "join sep [] = []"
| "join sep [p] = p"
| "join sep (p # q # ps) = p @ sep @ join sep (q # ps)"

text \<open>
  White space as \<open>trim\<close> and \<open>parseInt\<close> see it, among the characters below 256: TAB, LF, VT,
  FF, CR, SPACE and the no-break space.
\<close>

definition isWhiteSpace :: "char \<Rightarrow> bool" where
  "isWhiteSpace c =
     (let n = (of_char c :: nat) in (9 \<le> n \<and> n \<le> 13) \<or> n = 32 \<or> n = 160)"

definition isDigit :: "char \<Rightarrow> bool" where
  "isDigit c = (let n = (of_char c :: nat) in 48 \<le> n \<and> n \<le> 57)"

definition digitValue :: "char \<Rightarrow> nat" where
  "digitValue c = (of_char c :: nat) - 48"

definition digitsValue :: "string \<Rightarrow> nat" where
  "digitsValue ds = foldl (\<lambda>acc c. 10 * acc + digitValue c) 0 ds"


text \<open>
  \<open>parseInt(s, 10)\<close>: leading white space is skipped, one sign is read, then the longest run of
  decimal digits; whatever follows is ignored. \<open>None\<close> is \<open>NaN\<close> (no digit where one is due).
\<close>

definition parseInt :: "string \<Rightarrow> int option" where
  "parseInt s =
     (let t = dropWhile isWhiteSpace s;
          neg = (t \<noteq> [] \<and> hd t = CHR ''-'');
          u = (if t \<noteq> [] \<and> (hd t = CHR ''-'' \<or> hd t = CHR ''+'') then tl t else t);
          ds = takeWhile isDigit u
      in if ds = [] then None
         else Some ((if neg then - 1 else 1) * int (digitsValue ds)))"

text \<open>\<open>toLowerCase\<close> on 7-bit text (it is applied to an ASCII-decoded header only).\<close>

definition lowerChar :: "char \<Rightarrow> char" where
  "lowerChar c =
     (let n = (of_char c :: nat) in if 65 \<le> n \<and> n \<le> 90 then char_of (n + 32) else c)"

definition toLowerCase :: "string \<Rightarrow> string" where
  "toLowerCase s = map lowerChar s"




section \<open>Breakpoint strings (Session.parseBreakpoints)\<close>

text \<open>
  \<open>byFile\<close> is a JavaScript \<open>Map\<close>: keys keep the order of their first insertion, so it is
  an association list. \<open>pathResolve\<close> is \<open>resolve\<close> of \<open>node:path\<close>, a parameter.
\<close>

type_synonym fileEntry = "int list \<times> string option list"

fun byFile_push :: "string \<Rightarrow> int \<Rightarrow> string option \<Rightarrow> (string \<times> fileEntry) list
    \<Rightarrow> (string \<times> fileEntry) list" where
  "byFile_push file line cond [] = [(file, ([line], [cond]))]"
| "byFile_push file line cond ((f, (ls, cs)) # rest) =
     (if f = file then (f, (ls @ [line], cs @ [cond])) # rest
      else (f, (ls, cs)) # byFile_push file line cond rest)"

fun parseBreakpoints_loop :: "(string \<Rightarrow> string) \<Rightarrow> string list
    \<Rightarrow> (string \<times> fileEntry) list \<Rightarrow> (string \<times> fileEntry) list" where
  "parseBreakpoints_loop pathResolve [] byFile = byFile"
| "parseBreakpoints_loop pathResolve (bp # raw) byFile =
     (let parts = split '':'' bp in
      if length parts < 2 then parseBreakpoints_loop pathResolve raw byFile
      else
        let file = pathResolve (parts ! 0) in
        (case parseInt (parts ! 1) of
           None \<Rightarrow> parseBreakpoints_loop pathResolve raw byFile
         | Some line \<Rightarrow>
             let condition = (if length parts > 2 then Some (join '':'' (drop 2 parts)) else None)
             in parseBreakpoints_loop pathResolve raw (byFile_push file line condition byFile)))"

record BreakpointGroup =
  bg_file :: string
  bg_lines :: "int list"
  bg_conditions :: "string option list"

definition parseBreakpoints :: "(string \<Rightarrow> string) \<Rightarrow> string list \<Rightarrow> BreakpointGroup list" where
  "parseBreakpoints pathResolve raw =
     map (\<lambda>(file, (ls, cs)). \<lparr>bg_file = file, bg_lines = ls, bg_conditions = cs\<rparr>)
       (parseBreakpoints_loop pathResolve raw [])"

text \<open>\<open>String(n)\<close> for a non-negative integer, and \<open>padStart\<close> with spaces.\<close>

function digits_of :: "nat \<Rightarrow> string" where
  "digits_of n =
     (if n < 10 then [char_of (48 + n)] else digits_of (n div 10) @ [char_of (48 + n mod 10)])"
  by pat_completeness auto
termination
  by (relation "measure id") auto

definition padStart :: "nat \<Rightarrow> string \<Rightarrow> string" where
  "padStart n s = replicate (n - length s) CHR '' '' @ s"

section \<open>DAP messages (dap-types.ts)\<close>

text \<open>
  A JSON object is a record of the properties the code reads; a property that may be missing
  is an option. An exception is the message of its \<open>Error\<close>.
\<close>

datatype 'a attempt = Throws string | Returns 'a

record StackFrame =
  sf_id :: int
  sf_name :: string
  sf_line :: int
  sf_column :: int
  sf_path :: "string option"

record Variable =
  var_name :: string
  var_value :: string
  var_type :: "string option"
  var_variablesReference :: int

record Scope =
  scope_name :: string
  scope_variablesReference :: int

record Breakpoint =
  bp_line :: "int option"
  bp_verified :: "bool option"

record ResponseBody =
  body_stackFrames :: "StackFrame list option"
  body_scopes :: "Scope list option"
  body_variables :: "Variable list option"
  body_breakpoints :: "Breakpoint list option"
  body_result :: "string option"
  body_type :: "string option"

record DAPResponse =
  request_seq :: nat
  success :: bool
  resp_command :: string
  resp_message :: "string option"
  resp_body :: "ResponseBody option"

record EventBody =
  ev_reason :: "string option"
  ev_threadId :: "int option"
  ev_exitCode :: "int option"

record DAPEvent =
  event :: string
  ev_body :: "EventBody option"

datatype DAPMessage = Response DAPResponse | Event DAPEvent | Other string

section \<open>The DAP client (dap-client.ts)\<close>

subsection \<open>Frames: DAPClient.processBuffer\<close>














subsection \<open>Requests, responses and events\<close>

text \<open>
  \<open>pending\<close> holds the keys of the map of synchronous requests, in insertion order (the
  value of a key is the pair of callbacks that settle the promise \<open>request\<close> returned, and
  its timer). \<open>asyncResponses\<close> maps a seq to its deferred, whose promise is unsettled,
  resolved or rejected. \<open>sock\<close> says whether the socket is there.
\<close>

datatype 'a promise = Unsettled | Resolved 'a | Rejected string

record DAPClient =
  sock :: bool
  seq :: nat
  pending :: "nat list"
  asyncResponses :: "(nat \<times> DAPResponse promise) list"
  eventQueue :: "DAPEvent list"

definition new_DAPClient :: DAPClient where
  "new_DAPClient = \<lparr>sock = False, seq = 0, pending = [], asyncResponses = [], eventQueue = []\<rparr>"

definition map_delete :: "'k \<Rightarrow> ('k \<times> 'v) list \<Rightarrow> ('k \<times> 'v) list" where
  "map_delete k m = filter (\<lambda>(k', v). k' \<noteq> k) m"

fun map_set :: "'k \<Rightarrow> 'v \<Rightarrow> ('k \<times> 'v) list \<Rightarrow> ('k \<times> 'v) list" where
  "map_set k v [] = [(k, v)]"
| "map_set k v ((k', v') # m) = (if k' = k then (k, v) # m else (k', v') # map_set k v m)"

text \<open>\<open>deferred.resolve(resp)\<close>: a promise settles once.\<close>

definition resolve :: "'a \<Rightarrow> 'a promise \<Rightarrow> 'a promise" where
  "resolve v p = (case p of Unsettled \<Rightarrow> Resolved v | _ \<Rightarrow> p)"

definition dispatch :: "DAPMessage \<Rightarrow> DAPClient \<Rightarrow> DAPClient" where
  "dispatch msg c =
     (case msg of
        Response resp \<Rightarrow>
          (let c1 = (case map_of (asyncResponses c) (request_seq resp) of
                       Some deferred \<Rightarrow>
                         c\<lparr>asyncResponses :=
                             map_set (request_seq resp) (resolve resp deferred) (asyncResponses c)\<rparr>
                     | None \<Rightarrow> c)
           in if request_seq resp \<in> set (pending c1)
              then c1\<lparr>pending := removeAll (request_seq resp) (pending c1)\<rparr>
              else c1)
      | Event evt \<Rightarrow> c\<lparr>eventQueue := eventQueue c @ [evt]\<rparr>
      | Other t \<Rightarrow> c)"

definition dispatch_all :: "DAPMessage list \<Rightarrow> DAPClient \<Rightarrow> DAPClient" where
  "dispatch_all msgs c = foldl (\<lambda>a m. dispatch m a) c msgs"

text \<open>The first response among the messages that answers the request \<open>sq\<close>.\<close>

fun response_for :: "nat \<Rightarrow> DAPMessage list \<Rightarrow> DAPResponse option" where
  "response_for sq [] = None"
| "response_for sq (Response resp # msgs) =
     (if request_seq resp = sq then Some resp else response_for sq msgs)"
| "response_for sq (m # msgs) = response_for sq msgs"

text \<open>
  \<open>request(command, args, timeout)\<close>, from the call to the moment the caller resumes.
  \<open>incoming\<close> are the messages the socket delivers while the caller waits, all dispatched
  before it resumes. The first response that finds the slot resolves the promise; when none
  comes, the timer fires, deletes the slot and rejects. A missing socket makes \<open>send\<close>
  throw inside the promise's executor, after the slot is set.
\<close>

definition timeoutMessage :: "string \<Rightarrow> nat \<Rightarrow> string" where
  "timeoutMessage command timeout =
     ''DAP request '' @ [CHR 0x27] @ command @ [CHR 0x27] @ '' timed out after ''
       @ digits_of timeout @ ''ms''"

definition request :: "string \<Rightarrow> nat \<Rightarrow> DAPMessage list \<Rightarrow> DAPClient
    \<Rightarrow> DAPResponse attempt \<times> DAPClient" where
  "request command timeout incoming c =
     (let sq = seq c + 1;
          c1 = c\<lparr>seq := sq, pending := (if sq \<in> set (pending c) then pending c else pending c @ [sq])\<rparr>
      in if \<not> sock c1 then (Throws ''Not connected'', c1)
         else
           let c2 = dispatch_all incoming c1 in
           (case response_for sq incoming of
              Some resp \<Rightarrow> (Returns resp, c2)
            | None \<Rightarrow>
                (Throws (timeoutMessage command timeout),
                 c2\<lparr>pending := removeAll sq (pending c2)\<rparr>)))"

text \<open>\<open>requestAsync\<close>: the deferred is stored before \<open>send\<close>, which may throw.\<close>

definition requestAsync :: "string \<Rightarrow> DAPClient \<Rightarrow> nat attempt \<times> DAPClient" where
  "requestAsync command c =
     (let sq = seq c + 1;
          c1 = c\<lparr>seq := sq, asyncResponses := map_set sq Unsettled (asyncResponses c)\<rparr>
      in if \<not> sock c1 then (Throws ''Not connected'', c1) else (Returns sq, c1))"

text \<open>
  \<open>waitForResponse(seq, timeout)\<close>. A settled deferred wins the race at once; otherwise
  \<open>incoming\<close> are the messages dispatched until the race is decided, and the timeout wins
  when they leave the deferred unsettled. The slot is deleted on the line after the
  \<open>await\<close>, which a rejection does not reach.
\<close>

definition waitTimeoutMessage :: "nat \<Rightarrow> nat \<Rightarrow> string" where
  "waitTimeoutMessage sq timeout =
     ''DAP request seq='' @ digits_of sq @ '' timed out after '' @ digits_of timeout @ ''ms''"

definition waitForResponse :: "nat \<Rightarrow> nat \<Rightarrow> DAPMessage list \<Rightarrow> DAPClient
    \<Rightarrow> DAPResponse attempt \<times> DAPClient" where
  "waitForResponse sq timeout incoming c =
     (case map_of (asyncResponses c) sq of
        None \<Rightarrow> (Throws (''No pending async request with seq '' @ digits_of sq), c)
      | Some deferred \<Rightarrow>
          let c1 = (if deferred = Unsettled then dispatch_all incoming c else c) in
          (case map_of (asyncResponses c1) sq of
             Some (Resolved resp) \<Rightarrow>
               (Returns resp, c1\<lparr>asyncResponses := map_delete sq (asyncResponses c1)\<rparr>)
           | Some (Rejected e) \<Rightarrow> (Throws e, c1)
           | _ \<Rightarrow> (Throws (waitTimeoutMessage sq timeout), c1)))"

text \<open>
  \<open>waitForEvent(name, timeout)\<close>: a queued event is spliced out at once (\<open>incoming\<close> is not
  read, the flag says so). Otherwise the first event of that name among \<open>incoming\<close> is
  taken by the listener, which removes it from the queue again; without one the timer
  resolves with \<open>null\<close>.
\<close>

fun take_event :: "string \<Rightarrow> DAPEvent list \<Rightarrow> (DAPEvent \<times> DAPEvent list) option" where
  "take_event name [] = None"
| "take_event name (e # q) =
     (if event e = name then Some (e, q)
      else map_option (\<lambda>(x, q'). (x, e # q')) (take_event name q))"

fun take_message :: "string \<Rightarrow> DAPMessage list \<Rightarrow> (DAPEvent \<times> DAPMessage list) option" where
  "take_message name [] = None"
| "take_message name (Event e # ms) =
     (if event e = name then Some (e, ms)
      else map_option (\<lambda>(x, ms'). (x, Event e # ms')) (take_message name ms))"
| "take_message name (m # ms) = map_option (\<lambda>(x, ms'). (x, m # ms')) (take_message name ms)"

definition waitForEvent :: "string \<Rightarrow> DAPMessage list \<Rightarrow> DAPClient
    \<Rightarrow> DAPEvent option \<times> DAPClient \<times> bool" where
  "waitForEvent name incoming c =
     (case take_event name (eventQueue c) of
        Some (e, q) \<Rightarrow> (Some e, c\<lparr>eventQueue := q\<rparr>, False)
      | None \<Rightarrow>
          (case take_message name incoming of
             Some (e, others) \<Rightarrow> (Some e, dispatch_all others c, True)
           | None \<Rightarrow> (None, dispatch_all incoming c, True)))"

definition drainEvents :: "string option \<Rightarrow> DAPClient \<Rightarrow> DAPEvent list \<times> DAPClient" where
  "drainEvents eventName c =
     (if truthy_str eventName
      then (filter (\<lambda>e. event e = the eventName) (eventQueue c),
            c\<lparr>eventQueue := filter (\<lambda>e. event e \<noteq> the eventName) (eventQueue c)\<rparr>)
      else (eventQueue c, c\<lparr>eventQueue := []\<rparr>))"

text \<open>\<open>disconnect\<close>: the request is best effort; the \<open>finally\<close> block always runs.\<close>

definition disconnect :: "DAPMessage list \<Rightarrow> DAPClient \<Rightarrow> DAPClient" where
  "disconnect incoming c =
     (snd (request ''disconnect'' 5000 incoming c))
       \<lparr>sock := False, pending := [], asyncResponses := []\<rparr>"

section \<open>Adapters (adapters/base.ts, registry.ts and the four adapters)\<close>

text \<open>
  An adapter, as far as the session reads it: its name, whether it has the optional
  methods \<open>attachFlow\<close> and \<open>inject\<close>, and its two display filters. What its effectful
  methods return is given by the environment of a verb (see \<open>Env\<close> below).
\<close>

record AdapterConfig =
  adapter_name :: string
  has_attachFlow :: bool
  has_inject :: bool
  isInternalFrame :: "StackFrame \<Rightarrow> bool"
  isInternalVariable :: "Variable \<Rightarrow> bool"

definition path_of :: "StackFrame \<Rightarrow> string" where
  "path_of frame = or_str (sf_path frame) []"

definition PythonAdapter :: AdapterConfig where
  "PythonAdapter =
     \<lparr>adapter_name = ''python'', has_attachFlow = True, has_inject = True,
      isInternalFrame = (\<lambda>frame. str_includes (path_of frame) ''debugpy''
         \<or> str_includes (path_of frame) ''pydevd'' \<or> str_includes (path_of frame) ''<frozen''),
      isInternalVariable = (\<lambda>v. startsWith (var_name v) ''__''
         \<or> var_name v = ''special variables'' \<or> var_name v = ''function variables'')\<rparr>"

definition NodeAdapter :: AdapterConfig where
  "NodeAdapter =
     \<lparr>adapter_name = ''node'', has_attachFlow = False, has_inject = False,
      isInternalFrame = (\<lambda>frame. str_includes (path_of frame) ''node:internal''
         \<or> str_includes (path_of frame) ''node_modules''),
      isInternalVariable = (\<lambda>v. var_name v = ''this'' \<or> var_name v = ''__proto__'')\<rparr>"

definition GoAdapter :: AdapterConfig where
  "GoAdapter =
     \<lparr>adapter_name = ''go'', has_attachFlow = False, has_inject = False,
      isInternalFrame = (\<lambda>frame. str_includes (path_of frame) ''/runtime/''
         \<or> startsWith (sf_name frame) ''runtime.''),
      isInternalVariable = (\<lambda>v. False)\<rparr>"

definition RustAdapter :: AdapterConfig where
  "RustAdapter =
     \<lparr>adapter_name = ''rust'', has_attachFlow = False, has_inject = False,
      isInternalFrame = (\<lambda>frame. startsWith (sf_name frame) ''std::''
         \<or> startsWith (sf_name frame) ''core::'' \<or> str_includes (sf_name frame) ''__rust_''),
      isInternalVariable = (\<lambda>v. startsWith (var_name v) ''__'')\<rparr>"

definition EXTENSION_MAP :: "(string \<times> string) list" where
  "EXTENSION_MAP =
     [(''.py'', ''python''), (''.js'', ''node''), (''.mjs'', ''node''), (''.cjs'', ''node''),
      (''.ts'', ''node''), (''.mts'', ''node''), (''.tsx'', ''node''), (''.go'', ''go''),
      (''.rs'', ''rust''), (''.c'', ''rust''), (''.cpp'', ''rust''), (''.cc'', ''rust'')]"

definition adapters :: "(string \<times> AdapterConfig) list" where
  "adapters =
     [(''python'', PythonAdapter), (''node'', NodeAdapter), (''go'', GoAdapter),
      (''rust'', RustAdapter)]"

text \<open>\<open>extname\<close> is the function of \<open>node:path\<close>, a parameter. Own keys of the tables only.\<close>

definition detectLanguage :: "(string \<Rightarrow> string) \<Rightarrow> string \<Rightarrow> string option" where
  "detectLanguage extname filePath = map_of EXTENSION_MAP (toLowerCase (extname filePath))"

definition getAdapter :: "string \<Rightarrow> AdapterConfig option" where
  "getAdapter language = map_of adapters language"

definition getAdapterForFile :: "(string \<Rightarrow> string) \<Rightarrow> string \<Rightarrow> AdapterConfig option" where
  "getAdapterForFile extname filePath =
     (case detectLanguage extname filePath of
        None \<Rightarrow> None
      | Some lang \<Rightarrow> getAdapter lang)"

section \<open>Commands and results (protocol.ts)\<close>

record StartCommand =
  start_script :: string
  start_language :: "string option"
  start_breakpoints :: "string list option"
  start_runtime :: "string option"
  start_args :: "string list option"
  start_cwd :: "string option"
  start_stop_on_entry :: "bool option"

record AttachCommand =
  attach_host :: "string option"
  attach_port :: "int option"
  attach_pid :: "int option"
  attach_language :: "string option"
  attach_runtime :: "string option"
  attach_breakpoints :: "string list option"

datatype Command =
    Start StartCommand
  | Attach AttachCommand
  | Vars
  | Stack
  | Eval string
  | Step "string option"
  | Continue
  | Break string int "string option"
  | Source "string option" "int option"
  | Status
  | Close

record LocationInfo =
  loc_file :: string
  loc_line :: int
  loc_function :: string

record BreakpointInfo =
  bi_file :: string
  bi_line :: int
  bi_verified :: bool

record VariableInfo =
  vi_name :: string
  vi_value :: string
  vi_type :: string

text \<open>
  The loose result map. \<open>location\<close> and \<open>exitCode\<close> can be present with the value
  \<open>null\<close>: the outer option is the property, the inner one its value.
\<close>

record CommandResult =
  error :: "string option"
  status :: "string option"
  reason :: "string option"
  location :: "LocationInfo option option"
  res_breakpoints :: "BreakpointInfo list option"
  res_variables :: "VariableInfo list option"
  count :: "nat option"
  frames :: "LocationInfo list option"
  res_result :: "string option"
  res_type :: "string option"
  exitCode :: "int option option"
  source :: "string option"
  res_file :: "string option"
  res_line :: "int option"
  verified :: "bool option"
  res_state :: "string option"
  message :: "string option"

definition no_result :: CommandResult where
  "no_result =
     \<lparr>error = None, status = None, reason = None, location = None, res_breakpoints = None,
      res_variables = None, count = None, frames = None, res_result = None, res_type = None,
      exitCode = None, source = None, res_file = None, res_line = None, verified = None,
      res_state = None, message = None\<rparr>"

definition error_result :: "string \<Rightarrow> CommandResult" where
  "error_result msg = no_result\<lparr>error := Some msg\<rparr>"

section \<open>The session (session.ts)\<close>

datatype SessionState = idle | starting | running | paused | terminated

definition state_name :: "SessionState \<Rightarrow> string" where
  "state_name st =
     (case st of idle \<Rightarrow> ''idle'' | starting \<Rightarrow> ''starting'' | running \<Rightarrow> ''running''
      | paused \<Rightarrow> ''paused'' | terminated \<Rightarrow> ''terminated'')"

text \<open>The child process of the adapter is a handle.\<close>

record Session =
  state :: SessionState
  client :: "DAPClient option"
  adapter :: "AdapterConfig option"
  adapterProcess :: "nat option"
  threadId :: "int option"
  frameId :: "int option"
  scriptPath :: "string option"
  attachedMode :: bool

definition new_Session :: Session where
  "new_Session =
     \<lparr>state = idle, client = None, adapter = None, adapterProcess = None, threadId = None,
      frameId = None, scriptPath = None, attachedMode = False\<rparr>"

text \<open>
  What a verb meets outside the session: the functions of \<open>node:path\<close> and the file
  system, and what the adapter's methods and \<open>connect\<close> do when the verb calls them
  (each is called at most once in a verb). A flow gets the client and leaves it changed.
\<close>

record InjectResult =
  inj_port :: int
  inj_debuggeePort :: "int option"

record Env =
  pathResolve :: "string \<Rightarrow> string"
  extname :: "string \<Rightarrow> string"
  readFileSync :: "string \<Rightarrow> string option"
  checkInstalled :: "string option"
  spawn :: "(nat \<times> int) attempt"
  connect :: "string option"
  inject :: "InjectResult attempt"
  initFlow :: "DAPClient \<Rightarrow> CommandResult attempt \<times> DAPClient"
  attachFlow :: "DAPClient \<Rightarrow> CommandResult attempt \<times> DAPClient"

text \<open>
  The messages the socket delivers, in batches: each time the session suspends on the
  client (a request, or an event that is not queued yet) it takes the next batch. When the
  batches are used up nothing arrives any more.
\<close>

type_synonym inbox = "DAPMessage list list"

definition next_batch :: "inbox \<Rightarrow> DAPMessage list \<times> inbox" where
  "next_batch inbox = (case inbox of [] \<Rightarrow> ([], []) | b # bs \<Rightarrow> (b, bs))"

text \<open>\<open>this.client.request(command, args)\<close> with the default timeout.\<close>

definition client_request :: "string \<Rightarrow> inbox \<Rightarrow> Session \<Rightarrow> DAPClient
    \<Rightarrow> DAPResponse attempt \<times> Session \<times> inbox" where
  "client_request name inbox s c =
     (let (b, inbox') = next_batch inbox;
          (r, c') = request name 30000 b c
      in (r, s\<lparr>client := Some c'\<rparr>, inbox'))"

definition updateFrame :: "inbox \<Rightarrow> Session \<Rightarrow> unit attempt \<times> Session \<times> inbox" where
  "updateFrame inbox s =
     (case (client s, threadId s) of
        (Some c, Some tid) \<Rightarrow>
          (case client_request ''stackTrace'' inbox s c of
             (Throws e, s1, inbox1) \<Rightarrow> (Throws e, s1, inbox1)
           | (Returns resp, s1, inbox1) \<Rightarrow>
               (Returns (),
                (if success resp
                 then (case resp_body resp of
                         Some body \<Rightarrow>
                           (case body_stackFrames body of
                              Some (f # fs) \<Rightarrow> s1\<lparr>frameId := Some (sf_id f)\<rparr>
                            | _ \<Rightarrow> s1)
                       | None \<Rightarrow> s1)
                 else s1),
                inbox1))
      | _ \<Rightarrow> (Returns (), s, inbox))"

definition currentLocation :: "inbox \<Rightarrow> Session
    \<Rightarrow> LocationInfo option attempt \<times> Session \<times> inbox" where
  "currentLocation inbox s =
     (case (client s, threadId s) of
        (Some c, Some tid) \<Rightarrow>
          (case client_request ''stackTrace'' inbox s c of
             (Throws e, s1, inbox1) \<Rightarrow> (Throws e, s1, inbox1)
           | (Returns resp, s1, inbox1) \<Rightarrow>
               (Returns
                  (if success resp
                   then (case resp_body resp of
                           Some body \<Rightarrow>
                             (case body_stackFrames body of
                                Some (f # fs) \<Rightarrow>
                                  Some \<lparr>loc_file = or_str (sf_path f) ''?'', loc_line = sf_line f,
                                        loc_function = sf_name f\<rparr>
                              | _ \<Rightarrow> None)
                         | None \<Rightarrow> None)
                   else None),
                s1, inbox1))
      | _ \<Rightarrow> (Returns None, s, inbox))"

text \<open>
  \<open>cleanup\<close>: both steps are best effort, nothing is thrown. The client is disconnected
  (the request takes a batch) and dropped. The wait for the child's exit ends by the exit
  or by the timer.
\<close>

definition cleanup :: "inbox \<Rightarrow> Session \<Rightarrow> Session \<times> inbox" where
  "cleanup inbox s =
     (let (s1, inbox1) =
            (case client s of
               Some c \<Rightarrow>
                 (let (b, inbox') = next_batch inbox;
                      closed = disconnect b c
                  in (s\<lparr>client := None\<rparr>, inbox'))
             | None \<Rightarrow> (s, inbox))
      in (case adapterProcess s1 of
            Some p \<Rightarrow> (s1\<lparr>adapterProcess := None\<rparr>, inbox1)
          | None \<Rightarrow> (s1, inbox1)))"

definition close :: "inbox \<Rightarrow> Session \<Rightarrow> CommandResult \<times> Session \<times> inbox" where
  "close inbox s =
     (let (s1, inbox1) = cleanup inbox s
      in (no_result\<lparr>status := Some ''closed''\<rparr>,
          s1\<lparr>state := idle, threadId := None, frameId := None, scriptPath := None,
             attachedMode := False\<rparr>,
          inbox1))"

definition quoted :: "string \<Rightarrow> string" where
  "quoted s = [CHR 0x27] @ s @ [CHR 0x27]"

definition alreadyActive :: string where
  "alreadyActive = ''Session already active. Run '' @ quoted ''agent-debugger close'' @ '' first.''"

text \<open>Reading a property of \<open>undefined\<close> throws a \<open>TypeError\<close>.\<close>

definition typeError :: "string \<Rightarrow> string" where
  "typeError prop = ''Cannot read properties of undefined (reading '' @ quoted prop @ '')''"

text \<open>
  \<open>startSession\<close>, in three parts: the block for a flow that reports a pause
  (\<open>startPaused\<close>), what follows a flow that returned (\<open>startFinish\<close>), and the verb up to
  the flow. The parsed breakpoints go to the flow and nowhere else, so they do not show in
  the result of the model. When \<open>connect\<close> throws, \<open>this.client\<close> keeps the client just
  made.
\<close>

definition startPaused :: "CommandResult \<Rightarrow> DAPClient \<Rightarrow> inbox \<Rightarrow> Session
    \<Rightarrow> CommandResult attempt \<times> Session \<times> inbox" where
  "startPaused result c inbox s =
     (let (stopped, c1) = drainEvents (Some ''stopped'') c;
          body_threadId =
            (case stopped of
               [] \<Rightarrow> None
             | e # es \<Rightarrow> (case ev_body e of None \<Rightarrow> None | Some body \<Rightarrow> ev_threadId body));
          tid = (case body_threadId of None \<Rightarrow> 1 | Some t \<Rightarrow> t);
          s1 = s\<lparr>state := paused, client := Some c1,
                 threadId := Some (if tid = 0 then 1 else tid)\<rparr>
      in (case updateFrame inbox s1 of
            (Throws e, s2, inbox2) \<Rightarrow> (Throws e, s2, inbox2)
          | (Returns u, s2, inbox2) \<Rightarrow>
              (case currentLocation inbox2 s2 of
                 (Throws e, s3, inbox3) \<Rightarrow> (Throws e, s3, inbox3)
               | (Returns loc, s3, inbox3) \<Rightarrow>
                   (Returns (result\<lparr>location := Some loc\<rparr>), s3, inbox3))))"

definition startFinish :: "CommandResult \<Rightarrow> DAPClient \<Rightarrow> inbox \<Rightarrow> Session
    \<Rightarrow> CommandResult attempt \<times> Session \<times> inbox" where
  "startFinish result c inbox s =
     (if truthy_str (error result)
      then (let (s1, inbox1) = cleanup inbox (s\<lparr>state := idle\<rparr>)
            in (Returns result, s1, inbox1))
      else if status result = Some ''paused'' then startPaused result c inbox s
      else if status result = Some ''terminated''
      then (Returns result, s\<lparr>state := terminated\<rparr>, inbox)
      else (Returns result, s\<lparr>state := running\<rparr>, inbox))"

definition startSession :: "Env \<Rightarrow> StartCommand \<Rightarrow> inbox \<Rightarrow> Session
    \<Rightarrow> CommandResult attempt \<times> Session \<times> inbox" where
  "startSession env cmd inbox s =
     (if state s \<noteq> idle then (Returns (error_result alreadyActive), s, inbox)
      else
        let script = pathResolve env (start_script cmd);
            s1 = s\<lparr>scriptPath := Some script, state := starting\<rparr>;
            s2 = s1\<lparr>adapter :=
                      (if truthy_str (start_language cmd) then getAdapter (the (start_language cmd))
                       else getAdapterForFile (extname env) script)\<rparr>
        in (case adapter s2 of
              None \<Rightarrow>
                (Returns (error_result (''Unsupported file type: '' @ script
                    @ ''. Supported: .py, .js, .ts, .go, .rs, .c, .cpp'')),
                 s2\<lparr>state := idle\<rparr>, inbox)
            | Some ad \<Rightarrow>
                if truthy_str (checkInstalled env)
                then (Returns (error_result (the (checkInstalled env))), s2\<lparr>state := idle\<rparr>, inbox)
                else
                  (case spawn env of
                     Throws e \<Rightarrow>
                       (Returns (error_result (''Failed to start debug adapter: '' @ e)),
                        s2\<lparr>state := idle\<rparr>, inbox)
                   | Returns (proc, port) \<Rightarrow>
                       let s3 = s2\<lparr>adapterProcess := Some proc, client := Some new_DAPClient\<rparr>
                       in (case connect env of
                             Some e \<Rightarrow>
                               (Returns (error_result (''Failed to start debug adapter: '' @ e)),
                                s3\<lparr>state := idle\<rparr>, inbox)
                           | None \<Rightarrow>
                               let breakpoints =
                                     parseBreakpoints (pathResolve env)
                                       (case start_breakpoints cmd of None \<Rightarrow> [] | Some bs \<Rightarrow> bs);
                                   (flow, c) = initFlow env (new_DAPClient\<lparr>sock := True\<rparr>);
                                   s4 = s3\<lparr>client := Some c\<rparr>
                               in (case flow of
                                     Throws e \<Rightarrow> (Throws e, s4, inbox)
                                   | Returns result \<Rightarrow> startFinish result c inbox s4)))))"

text \<open>
  \<open>attachSession\<close>. \<open>!cmd.port\<close> and \<open>cmd.pid\<close> test truthiness: a missing number and 0
  are both false. \<open>attachTarget\<close> is the host and port the client connects to: those of
  the command, or with a pid those of \<open>inject\<close>. \<open>attachFinish\<close> is what follows a flow
  that returned.
\<close>

definition numberText :: "int \<Rightarrow> string" where
  "numberText n = (if n < 0 then ''-'' else []) @ digits_of (nat \<bar>n\<bar>)"

definition attachTarget :: "Env \<Rightarrow> AttachCommand \<Rightarrow> (string \<times> int option) attempt" where
  "attachTarget env cmd =
     (if truthy_num (attach_pid cmd)
      then (case inject env of
              Throws e \<Rightarrow> Throws e
            | Returns injectResult \<Rightarrow>
                Returns (''127.0.0.1'',
                  (case inj_debuggeePort injectResult of
                     Some p \<Rightarrow> Some p
                   | None \<Rightarrow> Some (inj_port injectResult))))
      else Returns (or_str (attach_host cmd) ''127.0.0.1'', attach_port cmd))"

definition attachFinish :: "CommandResult \<Rightarrow> inbox \<Rightarrow> Session
    \<Rightarrow> CommandResult attempt \<times> Session \<times> inbox" where
  "attachFinish result inbox s =
     (if truthy_str (error result)
      then (let (s1, inbox1) = cleanup inbox (s\<lparr>state := idle\<rparr>)
            in (Returns result, s1, inbox1))
      else (Returns result, s\<lparr>state := running, attachedMode := True\<rparr>, inbox))"

definition attachSession :: "Env \<Rightarrow> AttachCommand \<Rightarrow> inbox \<Rightarrow> Session
    \<Rightarrow> CommandResult attempt \<times> Session \<times> inbox" where
  "attachSession env cmd inbox s =
     (if state s \<noteq> idle then (Returns (error_result alreadyActive), s, inbox)
      else if \<not> truthy_num (attach_port cmd) \<and> \<not> truthy_num (attach_pid cmd)
      then (Returns (error_result ''Either port or --pid is required''), s, inbox)
      else
        let s1 = s\<lparr>state := starting\<rparr>;
            language = or_str (attach_language cmd) ''python'';
            s2 = s1\<lparr>adapter := getAdapter language\<rparr>
        in (case adapter s2 of
              None \<Rightarrow>
                (Returns (error_result (''Unknown language: '' @ language)),
                 s2\<lparr>state := idle\<rparr>, inbox)
            | Some ad \<Rightarrow>
                if \<not> has_attachFlow ad
                then (Returns (error_result (''Attach not supported for '' @ adapter_name ad)),
                      s2\<lparr>state := idle\<rparr>, inbox)
                else if truthy_num (attach_pid cmd) \<and> \<not> has_inject ad
                then (Returns (error_result (''PID injection not supported for '' @ adapter_name ad)),
                      s2\<lparr>state := idle\<rparr>, inbox)
                else
                  (case attachTarget env cmd of
                     Throws e \<Rightarrow>
                       (Returns (error_result (''Failed to inject into PID ''
                           @ (case attach_pid cmd of Some n \<Rightarrow> numberText n | None \<Rightarrow> [])
                           @ '': '' @ e)),
                        s2\<lparr>state := idle\<rparr>, inbox)
                   | Returns (host, port) \<Rightarrow>
                       (case connect env of
                          Some e \<Rightarrow>
                            (Returns (error_result (''Failed to connect to '' @ host @ '':''
                                @ (case port of Some n \<Rightarrow> numberText n | None \<Rightarrow> ''undefined'')
                                @ '': '' @ e)),
                             s2\<lparr>state := idle, client := None\<rparr>, inbox)
                        | None \<Rightarrow>
                            let breakpoints =
                                  parseBreakpoints (pathResolve env)
                                    (case attach_breakpoints cmd of None \<Rightarrow> [] | Some bs \<Rightarrow> bs);
                                (flow, c) = attachFlow env (new_DAPClient\<lparr>sock := True\<rparr>);
                                s4 = s2\<lparr>client := Some c\<rparr>
                            in (case flow of
                                  Throws e \<Rightarrow> (Throws e, s4, inbox)
                                | Returns result \<Rightarrow> attachFinish result inbox s4)))))"

text \<open>\<open>getVariables\<close>: the inner loop over the variables of a scope, then the loop over scopes.\<close>

fun variablesLoop :: "AdapterConfig option \<Rightarrow> Variable list \<Rightarrow> VariableInfo list
    \<Rightarrow> VariableInfo list" where
  "variablesLoop ad [] result = result"
| "variablesLoop ad (v # vars) result =
     (if (case ad of None \<Rightarrow> False | Some a \<Rightarrow> isInternalVariable a v)
      then variablesLoop ad vars result
      else variablesLoop ad vars
             (result @ [\<lparr>vi_name = var_name v, vi_value = var_value v,
                         vi_type = or_str (var_type v) []\<rparr>]))"

fun scopesLoop :: "Scope list \<Rightarrow> VariableInfo list \<Rightarrow> inbox \<Rightarrow> Session \<Rightarrow> DAPClient
    \<Rightarrow> VariableInfo list attempt \<times> Session \<times> inbox" where
  "scopesLoop [] result inbox s c = (Returns result, s, inbox)"
| "scopesLoop (scope # scopes) result inbox s c =
     (if scope_name scope \<noteq> ''Locals'' \<and> scope_name scope \<noteq> ''Local''
      then scopesLoop scopes result inbox s c
      else
        (case client_request ''variables'' inbox s c of
           (Throws e, s1, inbox1) \<Rightarrow> (Throws e, s1, inbox1)
         | (Returns varResp, s1, inbox1) \<Rightarrow>
             scopesLoop scopes
               (if success varResp
                then (case resp_body varResp of
                        Some body \<Rightarrow>
                          variablesLoop (adapter s)
                            (case body_variables body of None \<Rightarrow> [] | Some vs \<Rightarrow> vs) result
                      | None \<Rightarrow> result)
                else result)
               inbox1 s1 (case client s1 of Some c1 \<Rightarrow> c1 | None \<Rightarrow> c)))"

definition getVariables :: "inbox \<Rightarrow> Session \<Rightarrow> CommandResult attempt \<times> Session \<times> inbox" where
  "getVariables inbox s =
     (if state s \<noteq> paused then (Returns (error_result ''Program is not paused''), s, inbox)
      else if client s = None then (Returns (error_result ''No active session''), s, inbox)
      else
        (case updateFrame inbox s of
           (Throws e, s1, inbox1) \<Rightarrow> (Throws e, s1, inbox1)
         | (Returns u, s1, inbox1) \<Rightarrow>
             (case (frameId s1, client s1) of
                (Some fid, Some c1) \<Rightarrow>
                  (case client_request ''scopes'' inbox1 s1 c1 of
                     (Throws e, s2, inbox2) \<Rightarrow> (Throws e, s2, inbox2)
                   | (Returns resp, s2, inbox2) \<Rightarrow>
                       if \<not> success resp
                       then (Returns (error_result ''Failed to get scopes''), s2, inbox2)
                       else
                         (case (resp_body resp, client s2) of
                            (Some body, Some c2) \<Rightarrow>
                              (case scopesLoop
                                      (case body_scopes body of None \<Rightarrow> [] | Some scs \<Rightarrow> scs)
                                      [] inbox2 s2 c2 of
                                 (Throws e, s3, inbox3) \<Rightarrow> (Throws e, s3, inbox3)
                               | (Returns result, s3, inbox3) \<Rightarrow>
                                   (case currentLocation inbox3 s3 of
                                      (Throws e, s4, inbox4) \<Rightarrow> (Throws e, s4, inbox4)
                                    | (Returns loc, s4, inbox4) \<Rightarrow>
                                        (Returns (no_result\<lparr>res_variables := Some result,
                                             count := Some (length result), location := Some loc\<rparr>),
                                         s4, inbox4)))
                          | _ \<Rightarrow> (Throws (typeError ''scopes''), s2, inbox2)))
              | _ \<Rightarrow> (Returns (error_result ''No frame available''), s1, inbox1))))"

text \<open>\<open>getStack\<close>: every frame the adapter calls internal is skipped.\<close>

definition stackLocation :: "StackFrame \<Rightarrow> LocationInfo" where
  "stackLocation f = \<lparr>loc_file = or_str (sf_path f) [], loc_line = sf_line f, loc_function = sf_name f\<rparr>"

fun framesLoop :: "AdapterConfig option \<Rightarrow> StackFrame list \<Rightarrow> LocationInfo list
    \<Rightarrow> LocationInfo list" where
  "framesLoop ad [] collected = collected"
| "framesLoop ad (f # rawFrames) collected =
     (if (case ad of None \<Rightarrow> False | Some a \<Rightarrow> isInternalFrame a f)
      then framesLoop ad rawFrames collected
      else framesLoop ad rawFrames (collected @ [stackLocation f]))"

definition getStack :: "inbox \<Rightarrow> Session \<Rightarrow> CommandResult attempt \<times> Session \<times> inbox" where
  "getStack inbox s =
     (if state s \<noteq> paused then (Returns (error_result ''Program is not paused''), s, inbox)
      else
        (case (client s, threadId s) of
           (Some c, Some tid) \<Rightarrow>
             (case client_request ''stackTrace'' inbox s c of
                (Throws e, s1, inbox1) \<Rightarrow> (Throws e, s1, inbox1)
              | (Returns resp, s1, inbox1) \<Rightarrow>
                  if \<not> success resp
                  then (Returns (error_result ''Failed to get stack trace''), s1, inbox1)
                  else
                    (case resp_body resp of
                       None \<Rightarrow> (Throws (typeError ''stackFrames''), s1, inbox1)
                     | Some body \<Rightarrow>
                         let rawFrames = (case body_stackFrames body of None \<Rightarrow> [] | Some fs \<Rightarrow> fs);
                             fr = framesLoop (adapter s1) rawFrames []
                         in (Returns (no_result\<lparr>frames := Some fr, count := Some (length fr)\<rparr>),
                             s1, inbox1)))
         | _ \<Rightarrow> (Returns (error_result ''No active session''), s, inbox)))"

definition evalExpression :: "string \<Rightarrow> inbox \<Rightarrow> Session
    \<Rightarrow> CommandResult attempt \<times> Session \<times> inbox" where
  "evalExpression expression inbox s =
     (if state s \<noteq> paused then (Returns (error_result ''Program is not paused''), s, inbox)
      else
        (case client s of
           None \<Rightarrow> (Returns (error_result ''No active session''), s, inbox)
         | Some c \<Rightarrow>
             if expression = [] then (Returns (error_result ''No expression provided''), s, inbox)
             else
               (case client_request ''evaluate'' inbox s c of
                  (Throws e, s1, inbox1) \<Rightarrow> (Throws e, s1, inbox1)
                | (Returns resp, s1, inbox1) \<Rightarrow>
                    (case (success resp, resp_body resp) of
                       (True, Some body) \<Rightarrow>
                         (Returns (no_result\<lparr>res_result := body_result body,
                              res_type := Some (or_str (body_type body) [])\<rparr>),
                          s1, inbox1)
                     | _ \<Rightarrow>
                         (Returns (error_result (or_str (resp_message resp) ''Evaluation failed'')),
                          s1, inbox1)))))"

text \<open>
  One pass of the loop of \<open>waitForStop\<close>: \<open>Done\<close> is a \<open>return\<close> or an exception,
  \<open>Again\<close> the next pass.
\<close>

datatype tick = Done "CommandResult attempt" Session inbox | Again Session DAPClient inbox

definition waitForStop_tick :: "inbox \<Rightarrow> Session \<Rightarrow> DAPClient \<Rightarrow> tick" where
  "waitForStop_tick inbox s c =
     (case waitForEvent ''stopped'' (fst (next_batch inbox)) c of
        (Some stopped, c1, used) \<Rightarrow>
          (let inbox1 = (if used then snd (next_batch inbox) else inbox);
               body_reason = (case ev_body stopped of None \<Rightarrow> None | Some b \<Rightarrow> ev_reason b);
               body_threadId = (case ev_body stopped of None \<Rightarrow> None | Some b \<Rightarrow> ev_threadId b);
               s1 = s\<lparr>client := Some c1, state := paused,
                      threadId := (case body_threadId of Some t \<Rightarrow> Some t | None \<Rightarrow> threadId s)\<rparr>
           in (case updateFrame inbox1 s1 of
                 (Throws e, s2, inbox2) \<Rightarrow> Done (Throws e) s2 inbox2
               | (Returns u, s2, inbox2) \<Rightarrow>
                   (case currentLocation inbox2 s2 of
                      (Throws e, s3, inbox3) \<Rightarrow> Done (Throws e) s3 inbox3
                    | (Returns loc, s3, inbox3) \<Rightarrow>
                        Done (Returns (no_result\<lparr>status := Some ''paused'',
                                reason := Some (or_str body_reason ''unknown''),
                                location := Some loc\<rparr>))
                          s3 inbox3)))
      | (None, c1, used) \<Rightarrow>
          (let inbox1 = (if used then snd (next_batch inbox) else inbox);
               (terminatedEvents, c2) = drainEvents (Some ''terminated'') c1;
               (exited, c3) = drainEvents (Some ''exited'') c2
           in if terminatedEvents \<noteq> [] \<or> exited \<noteq> []
              then Done (Returns (no_result\<lparr>status := Some ''terminated'',
                           exitCode := Some (case exited of
                                               [] \<Rightarrow> None
                                             | e # es \<Rightarrow>
                                                 (case ev_body e of
                                                    None \<Rightarrow> None
                                                  | Some b \<Rightarrow> ev_exitCode b))\<rparr>))
                     (s\<lparr>client := Some c3, state := terminated\<rparr>) inbox1
              else (let c4 = snd (drainEvents (Some ''output'') c3)
                    in Again (s\<lparr>client := Some c4\<rparr>) c4 inbox1)))"

text \<open>
  The loop. A pass that goes on has waited a second for \<open>stopped\<close> and so has taken a
  batch. When no batch is left and the pass goes on, every later pass does the same: the
  verb never returns, which is \<open>None\<close>.
\<close>

fun waitForStop_loop :: "inbox \<Rightarrow> Session \<Rightarrow> DAPClient
    \<Rightarrow> (CommandResult attempt \<times> Session \<times> inbox) option" where
  "waitForStop_loop [] s c =
     (case waitForStop_tick [] s c of
        Done r s' inbox' \<Rightarrow> Some (r, s', inbox')
      | Again s' c' inbox' \<Rightarrow> None)"
| "waitForStop_loop (b # bs) s c =
     (case waitForStop_tick (b # bs) s c of
        Done r s' inbox' \<Rightarrow> Some (r, s', inbox')
      | Again s' c' inbox' \<Rightarrow> waitForStop_loop bs s' c')"

definition waitForStop :: "inbox \<Rightarrow> Session
    \<Rightarrow> (CommandResult attempt \<times> Session \<times> inbox) option" where
  "waitForStop inbox s =
     (case client s of
        None \<Rightarrow> Some (Returns (error_result ''No active session''), s, inbox)
      | Some c \<Rightarrow> waitForStop_loop inbox s c)"

definition step :: "string \<Rightarrow> inbox \<Rightarrow> Session
    \<Rightarrow> (CommandResult attempt \<times> Session \<times> inbox) option" where
  "step kind inbox s =
     (if state s \<noteq> paused then Some (Returns (error_result ''Program is not paused''), s, inbox)
      else
        (case (client s, threadId s) of
           (Some c, Some tid) \<Rightarrow>
             (let name = (if kind = ''into'' then ''stepIn''
                          else if kind = ''out'' then ''stepOut'' else ''next'')
              in (case client_request name inbox s c of
                    (Throws e, s1, inbox1) \<Rightarrow> Some (Throws e, s1, inbox1)
                  | (Returns resp, s1, inbox1) \<Rightarrow> waitForStop inbox1 (s1\<lparr>state := running\<rparr>)))
         | _ \<Rightarrow> Some (Returns (error_result ''No active session''), s, inbox)))"

definition continueExecution :: "inbox \<Rightarrow> Session
    \<Rightarrow> (CommandResult attempt \<times> Session \<times> inbox) option" where
  "continueExecution inbox s =
     (if state s = running
      then (if client s = None then Some (Returns (error_result ''No active session''), s, inbox)
            else waitForStop inbox s)
      else if state s \<noteq> paused
      then Some (Returns (error_result ''Program is not paused''), s, inbox)
      else
        (case (client s, threadId s) of
           (Some c, Some tid) \<Rightarrow>
             (case client_request ''continue'' inbox s c of
                (Throws e, s1, inbox1) \<Rightarrow> Some (Throws e, s1, inbox1)
              | (Returns resp, s1, inbox1) \<Rightarrow> waitForStop inbox1 (s1\<lparr>state := running\<rparr>))
         | _ \<Rightarrow> Some (Returns (error_result ''No active session''), s, inbox)))"

definition setBreakpoint :: "Env \<Rightarrow> string \<Rightarrow> int \<Rightarrow> string option \<Rightarrow> inbox \<Rightarrow> Session
    \<Rightarrow> CommandResult attempt \<times> Session \<times> inbox" where
  "setBreakpoint env filePath line condition inbox s =
     (case client s of
        None \<Rightarrow> (Returns (error_result ''No active session''), s, inbox)
      | Some c \<Rightarrow>
          let absPath = pathResolve env filePath in
          (case client_request ''setBreakpoints'' inbox s c of
             (Throws e, s1, inbox1) \<Rightarrow> (Throws e, s1, inbox1)
           | (Returns resp, s1, inbox1) \<Rightarrow>
               (case (success resp, resp_body resp) of
                  (True, Some body) \<Rightarrow>
                    (case body_breakpoints body of
                       Some (bp # bps) \<Rightarrow>
                         (Returns (no_result\<lparr>res_file := Some absPath,
                              res_line := Some (case bp_line bp of Some l \<Rightarrow> l | None \<Rightarrow> line),
                              verified := Some (case bp_verified bp of Some v \<Rightarrow> v | None \<Rightarrow> False)\<rparr>),
                          s1, inbox1)
                     | _ \<Rightarrow> (Returns (error_result ''Failed to set breakpoint''), s1, inbox1))
                | _ \<Rightarrow> (Returns (error_result ''Failed to set breakpoint''), s1, inbox1))))"

text \<open>
  \<open>getSourceAsync\<close>. The arrow and the bar of a listing line are outside Latin-1 and stand
  as their UTF-8 bytes.
\<close>

definition sourceLine :: "int \<Rightarrow> string list \<Rightarrow> nat \<Rightarrow> string" where
  "sourceLine center lines i =
     (if int i = center then [CHR 0xE2, CHR 0x86, CHR 0x92] else '' '')
       @ '' '' @ padStart 4 (digits_of (i + 1)) @ '' '' @ [CHR 0xE2, CHR 0x94, CHR 0x82] @ '' ''
       @ lines ! i"

definition sourceWindow :: "int option \<Rightarrow> string list \<Rightarrow> string" where
  "sourceWindow resolvedLine lines =
     (let center = (if truthy_num resolvedLine then the resolvedLine else 1) - 1;
          start = max 0 (center - 5);
          stop = min (int (length lines)) (center + 6)
      in join [CHR 0x0A] (map (sourceLine center lines) [nat start ..< nat stop]))"

definition getSourceAsync :: "Env \<Rightarrow> string option \<Rightarrow> int option \<Rightarrow> inbox \<Rightarrow> Session
    \<Rightarrow> CommandResult attempt \<times> Session \<times> inbox" where
  "getSourceAsync env filePath line inbox s =
     (case (if \<not> truthy_str filePath \<and> state s = paused
            then (case currentLocation inbox s of
                    (Throws e, s1, inbox1) \<Rightarrow> (Throws e, s1, inbox1)
                  | (Returns None, s1, inbox1) \<Rightarrow> (Returns (filePath, line), s1, inbox1)
                  | (Returns (Some loc), s1, inbox1) \<Rightarrow>
                      (Returns (Some (loc_file loc),
                         (case line of Some l \<Rightarrow> Some l | None \<Rightarrow> Some (loc_line loc))),
                       s1, inbox1))
            else (Returns (filePath, line), s, inbox)) of
        (Throws e, s1, inbox1) \<Rightarrow> (Throws e, s1, inbox1)
      | (Returns (resolvedFile, resolvedLine), s1, inbox1) \<Rightarrow>
          if \<not> truthy_str resolvedFile
          then (Returns (error_result ''No file specified and not paused at a known location''),
                s1, inbox1)
          else
            let file = pathResolve env (the resolvedFile) in
            (case readFileSync env file of
               None \<Rightarrow> (Returns (error_result (''File not found: '' @ file)), s1, inbox1)
             | Some text \<Rightarrow>
                 (Returns (no_result\<lparr>res_file := Some file, res_line := resolvedLine,
                      source := Some (sourceWindow resolvedLine (split [CHR 0x0A] text))\<rparr>),
                  s1, inbox1)))"

definition getStatus :: "Session \<Rightarrow> CommandResult" where
  "getStatus s = no_result\<lparr>res_state := Some (state_name (state s)), location := Some None\<rparr>"

definition getStatusAsync :: "inbox \<Rightarrow> Session \<Rightarrow> CommandResult attempt \<times> Session \<times> inbox" where
  "getStatusAsync inbox s =
     (let result = no_result\<lparr>res_state := Some (state_name (state s))\<rparr>
      in if state s = paused
         then (case currentLocation inbox s of
                 (Throws e, s1, inbox1) \<Rightarrow> (Throws e, s1, inbox1)
               | (Returns loc, s1, inbox1) \<Rightarrow> (Returns (result\<lparr>location := Some loc\<rparr>), s1, inbox1))
         else (Returns result, s, inbox))"

definition handleCommand :: "Env \<Rightarrow> Command \<Rightarrow> inbox \<Rightarrow> Session
    \<Rightarrow> (CommandResult attempt \<times> Session \<times> inbox) option" where
  "handleCommand env cmd inbox s =
     (case cmd of
        Start c \<Rightarrow> Some (startSession env c inbox s)
      | Attach c \<Rightarrow> Some (attachSession env c inbox s)
      | Vars \<Rightarrow> Some (getVariables inbox s)
      | Stack \<Rightarrow> Some (getStack inbox s)
      | Eval expression \<Rightarrow> Some (evalExpression expression inbox s)
      | Step kind \<Rightarrow> step (or_str kind ''over'') inbox s
      | Continue \<Rightarrow> continueExecution inbox s
      | Break file line condition \<Rightarrow> Some (setBreakpoint env file line condition inbox s)
      | Source file line \<Rightarrow> Some (getSourceAsync env file line inbox s)
      | Status \<Rightarrow> Some (Returns (getStatus s), s, inbox)
      | Close \<Rightarrow> (case close inbox s of (r, s', inbox') \<Rightarrow> Some (Returns r, s', inbox')))"

section \<open>Sequences of verbs\<close>

text \<open>
  What happens to the session between two replies of the daemon: a command goes through
  \<open>handleCommand\<close> (the daemon sends \<open>status\<close> to \<open>getStatusAsync\<close> instead), or the
  socket delivers messages while no verb runs and the client dispatches them.
\<close>

datatype call =
    Verb Env Command inbox
  | StatusCall inbox
  | Deliver "DAPMessage list"

definition deliver :: "DAPMessage list \<Rightarrow> Session \<Rightarrow> Session" where
  "deliver msgs s =
     (case client s of
        None \<Rightarrow> s
      | Some c \<Rightarrow> if sock c then s\<lparr>client := Some (dispatch_all msgs c)\<rparr> else s)"

definition perform :: "call \<Rightarrow> Session \<Rightarrow> Session option" where
  "perform cl s =
     (case cl of
        Verb env cmd inbox \<Rightarrow> map_option (\<lambda>(r, s', inbox'). s') (handleCommand env cmd inbox s)
      | StatusCall inbox \<Rightarrow> (case getStatusAsync inbox s of (r, s', inbox') \<Rightarrow> Some s')
      | Deliver msgs \<Rightarrow> Some (deliver msgs s))"

text \<open>
  A session is entered by the verb that takes it out of \<open>idle\<close>; \<open>viaAttach\<close> says that
  this verb was \<open>attach\<close>. \<open>run\<close> performs the calls in order and keeps that flag; it is
  \<open>None\<close> when a verb never returns.
\<close>

definition isAttach :: "call \<Rightarrow> bool" where
  "isAttach cl = (case cl of Verb env (Attach c) inbox \<Rightarrow> True | _ \<Rightarrow> False)"

definition viaAttach :: "call \<Rightarrow> Session \<Rightarrow> Session \<Rightarrow> bool \<Rightarrow> bool" where
  "viaAttach cl s s' via =
     (if state s' = idle then False
      else if state s = idle then isAttach cl
      else via)"

fun run :: "call list \<Rightarrow> Session \<times> bool \<Rightarrow> (Session \<times> bool) option" where
  "run [] sv = Some sv"
| "run (cl # calls) (s, via) =
     (case perform cl s of
        None \<Rightarrow> None
      | Some s' \<Rightarrow> run calls (s', viaAttach cl s s' via))"



section \<open>Sample data\<close>

text \<open>
  An environment in which everything works: the adapter is installed, spawns, accepts the
  connection, and its flows report a pause (launch) and a running program (attach).
\<close>

definition exampleEnv :: Env where
  "exampleEnv =
     \<lparr>pathResolve = (\<lambda>p. ''/work/'' @ p), extname = (\<lambda>p. ''.py''),
      readFileSync = (\<lambda>p. None), checkInstalled = None, spawn = Returns (1, 5678),
      connect = None, inject = Returns \<lparr>inj_port = 5679, inj_debuggeePort = None\<rparr>,
      initFlow = (\<lambda>c. (Returns (no_result\<lparr>status := Some ''paused''\<rparr>), c)),
      attachFlow = (\<lambda>c. (Returns (no_result\<lparr>status := Some ''running''\<rparr>), c))\<rparr>"

definition exampleStart :: StartCommand where
  "exampleStart =
     \<lparr>start_script = ''app.py'', start_language = None, start_breakpoints = Some [''app.py:25''],
      start_runtime = None, start_args = None, start_cwd = None, start_stop_on_entry = None\<rparr>"

definition exampleAttach :: AttachCommand where
  "exampleAttach =
     \<lparr>attach_host = None, attach_port = Some 5678, attach_pid = None, attach_language = None,
      attach_runtime = None, attach_breakpoints = None\<rparr>"

text \<open>A session paused at a breakpoint on thread 1, frame 7, with a connected client.\<close>

definition pausedSession :: Session where
  "pausedSession =
     \<lparr>state = paused, client = Some (new_DAPClient\<lparr>sock := True\<rparr>),
      adapter = Some PythonAdapter, adapterProcess = Some 1, threadId = Some 1,
      frameId = Some 7, scriptPath = Some ''/work/app.py'', attachedMode = False\<rparr>"

definition no_body :: ResponseBody where
  "no_body = \<lparr>body_stackFrames = None, body_scopes = None, body_variables = None,
      body_breakpoints = None, body_result = None, body_type = None\<rparr>"

definition reply :: "nat \<Rightarrow> string \<Rightarrow> ResponseBody option \<Rightarrow> DAPMessage" where
  "reply sq name body =
     Response \<lparr>request_seq = sq, success = True, resp_command = name, resp_message = None,
       resp_body = body\<rparr>"

definition userFrame :: StackFrame where
  "userFrame = \<lparr>sf_id = 7, sf_name = ''main'', sf_line = 25, sf_column = 1,
      sf_path = Some ''/work/app.py''\<rparr>"

definition internalFrame :: StackFrame where
  "internalFrame = \<lparr>sf_id = 3, sf_name = ''_run_code'', sf_line = 124, sf_column = 1,
      sf_path = Some ''/venv/site-packages/debugpy/_vendored/pydevd/pydevd_runpy.py''\<rparr>"

definition stackReply :: "nat \<Rightarrow> StackFrame list \<Rightarrow> DAPMessage" where
  "stackReply sq fs = reply sq ''stackTrace'' (Some (no_body\<lparr>body_stackFrames := Some fs\<rparr>))"











definition evalReply :: DAPMessage where
  "evalReply = reply 1 ''evaluate''
     (Some (no_body\<lparr>body_result := Some ''36'', body_type := Some ''int''\<rparr>))"

section \<open>Notions used in the statements\<close>

text \<open>Whether the session's adapter calls a frame internal (no adapter: no frame is).\<close>

definition internalTo :: "AdapterConfig option \<Rightarrow> StackFrame \<Rightarrow> bool" where
  "internalTo ad f = (case ad of None \<Rightarrow> False | Some a \<Rightarrow> isInternalFrame a f)"




text \<open>A wait that ended: the session is paused or terminated and still has its client.\<close>

definition halted :: "Session \<Rightarrow> Session \<Rightarrow> bool" where
  "halted s s' =
     (client s' \<noteq> None \<and> (state s' = paused \<or> state s' = terminated)
      \<and> attachedMode s' = attachedMode s)"


subsection \<open>Breakpoint specs and frames on the wire\<close>













subsection \<open>Sample frames and responses\<close>

text \<open>A late response to the request with seq 1, and a client with a socket.\<close>

definition lateResponse :: DAPResponse where
  "lateResponse = \<lparr>request_seq = 1, success = True, resp_command = ''launch'',
      resp_message = None, resp_body = None\<rparr>"

definition connectedClient :: DAPClient where
  "connectedClient = new_DAPClient\<lparr>sock := True\<rparr>"








section \<open>Properties of the session verbs\<close>

subsection \<open>close\<close>

lemma cleanup_fst: "fst (cleanup inbox s) = s\<lparr>client := None, adapterProcess := None\<rparr>"
  by (cases s)
    (auto simp add: cleanup_def next_batch_def split: option.splits prod.splits list.splits)

lemma close_result:
  "close inbox s = (no_result\<lparr>status := Some ''closed''\<rparr>,
     s\<lparr>client := None, adapterProcess := None, state := idle, threadId := None, frameId := None,
       scriptPath := None, attachedMode := False\<rparr>, snd (cleanup inbox s))"
  using cleanup_fst [of inbox s] by (cases "cleanup inbox s") (simp add: close_def)

text \<open>
  Claim C10. The verb \<open>close\<close> is total and idempotent: in every session state, also in
  \<open>idle\<close> with no client and no adapter process, it returns the result
  \<open>{status: "closed"}\<close> without an error; afterwards the state is \<open>idle\<close>, the client and
  the adapter process are gone, \<open>threadId\<close>, \<open>frameId\<close> and \<open>scriptPath\<close> are null and
  \<open>attachedMode\<close> is false; a second \<open>close\<close> returns the same result and leaves the same
  session.
\<close>

theorem close_total_idempotent:
  "(case close inbox s of (r, s1, inbox1) \<Rightarrow>
      handleCommand env Close inbox s = Some (Returns r, s1, inbox1)
      \<and> r = no_result\<lparr>status := Some ''closed''\<rparr> \<and> error r = None
      \<and> state s1 = idle \<and> client s1 = None \<and> adapterProcess s1 = None
      \<and> threadId s1 = None \<and> frameId s1 = None \<and> scriptPath s1 = None \<and> \<not> attachedMode s1
      \<and> (case close inbox' s1 of (r2, s2, inbox2) \<Rightarrow> r2 = r \<and> s2 = s1))"
  by (simp add: close_result handleCommand_def no_result_def)

theorem close_total_idempotent_witness:
  "(case close [] pausedSession of (r, s1, inbox1) \<Rightarrow>
      status r = Some ''closed'' \<and> error r = None
      \<and> s1 = new_Session\<lparr>adapter := Some PythonAdapter\<rparr>
      \<and> close [] s1 = (r, s1, []))"
  using close_total_idempotent [where inbox = "[]" and inbox' = "[]" and env = exampleEnv
      and s = pausedSession]
  by (simp add: close_result new_Session_def pausedSession_def no_result_def cleanup_def
      next_batch_def)

subsection \<open>start on an active session\<close>

lemma alreadyActive_includes: "str_includes alreadyActive ''already active''"
  by (simp add: alreadyActive_def quoted_def startsWith_def)

text \<open>
  Claim C9. When the session is not \<open>idle\<close>, a \<open>start\<close> command returns an error whose
  message contains \<open>already active\<close>, and the session is the one before the command: state,
  client, adapter, adapter process, \<open>threadId\<close>, \<open>frameId\<close>, \<open>scriptPath\<close> and
  \<open>attachedMode\<close> keep their values.
\<close>

theorem second_start_rejected:
  "state s \<noteq> idle \<Longrightarrow>
   handleCommand env (Start cmd) inbox s = Some (Returns (error_result alreadyActive), s, inbox)
   \<and> error (error_result alreadyActive) = Some alreadyActive
   \<and> str_includes alreadyActive ''already active''"
  by (simp add: handleCommand_def startSession_def error_result_def alreadyActive_includes)

theorem second_start_rejected_witness:
  "state pausedSession \<noteq> idle
   \<and> handleCommand exampleEnv (Start exampleStart) [] pausedSession
       = Some (Returns (error_result alreadyActive), pausedSession, [])
   \<and> str_includes alreadyActive ''already active''"
  using second_start_rejected [of pausedSession exampleEnv exampleStart "[]"]
  by (simp add: pausedSession_def)

subsection \<open>How the verbs change the session\<close>

lemma client_request_session:
  "client_request name inbox s c = (r, s', inbox') \<Longrightarrow> \<exists>c'. s' = s\<lparr>client := Some c'\<rparr>"
  by (auto simp add: client_request_def split: prod.splits)

















subsection \<open>Evaluating the sample runs\<close>

lemma PythonAdapter_flags:
  "has_attachFlow PythonAdapter" "has_inject PythonAdapter" "adapter_name PythonAdapter = ''python''"
  by (simp_all add: PythonAdapter_def)

lemmas client_eval =
  request_def dispatch_all_def dispatch_def waitForEvent_def drainEvents_def disconnect_def
  new_DAPClient_def truthy_str_def truthy_num_def or_str_def next_batch_def client_request_def
  reply_def stackReply_def no_body_def

lemmas session_eval =
  run.simps perform_def handleCommand_def viaAttach_def isAttach_def
  startSession_def startFinish_def startPaused_def attachSession_def attachFinish_def
  attachTarget_def updateFrame_def currentLocation_def cleanup_def close_def getStack_def
  evalExpression_def step_def continueExecution_def waitForStop_def waitForStop_tick_def
  getAdapter_def getAdapterForFile_def detectLanguage_def adapters_def EXTENSION_MAP_def
  toLowerCase_def lowerChar_def parseBreakpoints_def
  exampleEnv_def exampleStart_def exampleAttach_def new_Session_def pausedSession_def
  no_result_def error_result_def PythonAdapter_flags





lemma eval_example:
  "evalExpression ''x + 1'' [[evalReply]] pausedSession
     = (Returns (no_result\<lparr>res_result := Some ''36'', res_type := Some ''int''\<rparr>),
        pausedSession\<lparr>client := Some \<lparr>sock = True, seq = 1, pending = [], asyncResponses = [],
             eventQueue = []\<rparr>\<rparr>, [])"
  by (simp add: session_eval client_eval evalReply_def Let_def)

subsection \<open>eval\<close>

text \<open>
  Claim C6. For every session and every expression, \<open>eval\<close> leaves the fields \<open>state\<close>,
  \<open>threadId\<close> and \<open>frameId\<close> as they were (so \<open>status\<close> reports the same state
  afterwards); of the session only the client, which sent the \<open>evaluate\<close> request, can
  differ. The verb returns an error result (a failed precondition, or the adapter's
  message), or the result and type of the response; an exception comes from the request
  of a paused session with a client.
\<close>

theorem eval_changes_client_only:
  "(case evalExpression expression inbox s of (r, s', inbox') \<Rightarrow>
      handleCommand env (Eval expression) inbox s = Some (r, s', inbox')
      \<and> state s' = state s \<and> threadId s' = threadId s \<and> frameId s' = frameId s
      \<and> s' = s\<lparr>client := client s'\<rparr> \<and> (client s' = None) = (client s = None)
      \<and> getStatus s' = getStatus s
      \<and> (case r of
            Throws e \<Rightarrow> state s = paused \<and> client s \<noteq> None
          | Returns res \<Rightarrow>
              (\<exists>msg. res = error_result msg)
              \<or> (\<exists>v t. res = no_result\<lparr>res_result := v, res_type := Some t\<rparr>)))"
proof (cases "state s \<noteq> paused \<or> client s = None \<or> expression = []")
  case True
  then show ?thesis
    by (cases s) (auto simp add: evalExpression_def handleCommand_def getStatus_def split: option.splits)
next
  case False
  then obtain c where c: "client s = Some c" and p: "state s = paused" and e: "expression \<noteq> []"
    by auto
  obtain r s1 inbox1 where req: "client_request ''evaluate'' inbox s c = (r, s1, inbox1)"
    by (cases "client_request ''evaluate'' inbox s c") auto
  from client_request_session [OF req] obtain c' where s1: "s1 = s\<lparr>client := Some c'\<rparr>" by auto
  show ?thesis
    using c p e req s1
    by (cases r)
      (auto simp add: evalExpression_def handleCommand_def getStatus_def
        split: option.splits bool.splits)
qed

theorem eval_changes_client_only_witness:
  "(case evalExpression ''x + 1'' [[evalReply]] pausedSession of (r, s', inbox') \<Rightarrow>
      r = Returns (no_result\<lparr>res_result := Some ''36'', res_type := Some ''int''\<rparr>)
      \<and> state s' = paused \<and> threadId s' = Some 1 \<and> frameId s' = Some 7)"
  using eval_changes_client_only [where expression = "''x + 1''" and inbox = "[[evalReply]]"
      and s = pausedSession and env = exampleEnv]
  unfolding eval_example by (simp add: pausedSession_def)

subsection \<open>stack\<close>

lemma framesLoop_filter:
  "framesLoop ad rawFrames collected
     = collected @ map stackLocation (filter (\<lambda>f. \<not> internalTo ad f) rawFrames)"
  by (induction rawFrames arbitrary: collected) (simp_all add: internalTo_def)

text \<open>
  Claim C7, as the code has it. The claim says the filter never empties the list. It
  does: with the Python adapter and a stack whose only frame lies in debugpy, \<open>stack\<close>
  returns no frame and the count 0.
\<close>

theorem stack_filter_counterexample:
  "isInternalFrame PythonAdapter internalFrame
   \<and> fst (getStack [[stackReply 1 [internalFrame]]] pausedSession)
       = Returns (no_result\<lparr>frames := Some [], count := Some 0\<rparr>)"
  by (simp add: session_eval client_eval PythonAdapter_def internalFrame_def path_of_def
      startsWith_def Let_def)

text \<open>
  Claim C7, amended. When the \<open>stackTrace\<close> request of a paused session succeeds, \<open>stack\<close>
  returns the frames the adapter's filter does not call internal, in the order of the
  response, and their number; the list is empty exactly when every frame of the response
  is internal (there is no fall-through to the unfiltered top frame).
\<close>

theorem stack_returns_unfiltered_frames_only:
  assumes "state s = paused" and "client s = Some c" and "threadId s = Some tid"
    and "client_request ''stackTrace'' inbox s c = (Returns resp, s1, inbox1)"
    and "success resp" and "resp_body resp = Some body"
    and "rawFrames = (case body_stackFrames body of None \<Rightarrow> [] | Some fs \<Rightarrow> fs)"
    and "shown = map stackLocation (filter (\<lambda>f. \<not> internalTo (adapter s) f) rawFrames)"
  shows "getStack inbox s
           = (Returns (no_result\<lparr>frames := Some shown, count := Some (length shown)\<rparr>), s1, inbox1)
         \<and> (shown = []) = (\<forall>f \<in> set rawFrames. internalTo (adapter s) f)"
proof -
  from client_request_session [OF assms(4)] have "adapter s1 = adapter s" by auto
  then have "getStack inbox s
           = (Returns (no_result\<lparr>frames := Some shown, count := Some (length shown)\<rparr>), s1, inbox1)"
    using assms by (simp add: getStack_def framesLoop_filter Let_def)
  moreover have "(shown = []) = (\<forall>f \<in> set rawFrames. internalTo (adapter s) f)"
    unfolding assms(8) by (simp add: filter_empty_conv)
  ultimately show ?thesis by simp
qed

theorem stack_returns_unfiltered_frames_only_witness:
  "getStack [[stackReply 1 [userFrame, internalFrame]]] pausedSession
     = (Returns (no_result\<lparr>frames := Some [stackLocation userFrame], count := Some 1\<rparr>),
        pausedSession\<lparr>client := Some \<lparr>sock = True, seq = 1, pending = [], asyncResponses = [],
          eventQueue = []\<rparr>\<rparr>, [])
   \<and> \<not> internalTo (adapter pausedSession) userFrame
   \<and> internalTo (adapter pausedSession) internalFrame"
proof -
  have req: "client_request ''stackTrace'' [[stackReply 1 [userFrame, internalFrame]]] pausedSession
        (new_DAPClient\<lparr>sock := True\<rparr>)
      = (Returns \<lparr>request_seq = 1, success = True, resp_command = ''stackTrace'',
           resp_message = None,
           resp_body = Some (no_body\<lparr>body_stackFrames := Some [userFrame, internalFrame]\<rparr>)\<rparr>,
         pausedSession\<lparr>client := Some \<lparr>sock = True, seq = 1, pending = [], asyncResponses = [],
           eventQueue = []\<rparr>\<rparr>, [])"
    by (simp add: client_eval pausedSession_def Let_def)
  have int: "\<not> internalTo (adapter pausedSession) userFrame
      \<and> internalTo (adapter pausedSession) internalFrame"
    by (simp add: internalTo_def pausedSession_def PythonAdapter_def userFrame_def
        internalFrame_def path_of_def or_str_def truthy_str_def startsWith_def)
  from stack_returns_unfiltered_frames_only [OF _ _ _ req, of 1
      "no_body\<lparr>body_stackFrames := Some [userFrame, internalFrame]\<rparr>"
      "[userFrame, internalFrame]" "[stackLocation userFrame]"] int
  show ?thesis by (simp add: pausedSession_def no_body_def)
qed

subsection \<open>attach\<close>




subsection \<open>step and the wait loop\<close>


lemma halted_client: "halted (s\<lparr>client := c\<rparr>) s' \<Longrightarrow> halted s s'"
  by (simp add: halted_def)





















subsection \<open>The invariant of the session aggregate\<close>















section \<open>Properties of the frame parser\<close>



lemma startsWith_append: "startsWith (p @ s) p"
  by (simp add: startsWith_def)





































section \<open>Properties of the breakpoint parser\<close>














section \<open>Properties of the client's correlation maps\<close>

text \<open>
  A synchronous \<open>request\<close> that times out fails and leaves no slot for its seq; a response
  that arrives for a seq without a slot changes nothing.
\<close>

lemma request_timeout_removes_slot:
  assumes "sock c" and "response_for (seq c + 1) incoming = None"
    and "request command timeout incoming c = (r, c')"
  shows "r = Throws (timeoutMessage command timeout) \<and> seq c + 1 \<notin> set (pending c')"
  using assms by (auto simp add: request_def Let_def)

lemma late_response_dropped:
  assumes "request_seq resp \<notin> set (pending c)"
    and "map_of (asyncResponses c) (request_seq resp) = None"
  shows "dispatch (Response resp) c = c"
  using assms by (simp add: dispatch_def)

text \<open>
  Claim C3, as the code has it for the deferred flavour. \<open>requestAsync\<close> gives seq 1;
  \<open>waitForResponse\<close> on it times out and the caller fails, but the slot of seq 1 stays in
  \<open>asyncResponses\<close> (the line that deletes it comes after the \<open>await\<close> that threw). The
  response that arrives later finds the slot and resolves it, and a second
  \<open>waitForResponse\<close> on seq 1 returns that response.
\<close>

theorem late_deferred_response_is_kept:
  "(case requestAsync ''launch'' connectedClient of (r0, c0) \<Rightarrow>
      r0 = Returns 1
      \<and> (case waitForResponse 1 15000 [] c0 of (r1, c1) \<Rightarrow>
            r1 = Throws (waitTimeoutMessage 1 15000)
            \<and> map_of (asyncResponses c1) 1 = Some Unsettled
            \<and> (case waitForResponse 1 15000 [] (dispatch (Response lateResponse) c1) of
                  (r3, c3) \<Rightarrow> r3 = Returns lateResponse)))"
  by (simp add: requestAsync_def waitForResponse_def connectedClient_def new_DAPClient_def
      dispatch_def dispatch_all_def lateResponse_def resolve_def map_delete_def)

end
